theory Spec2Isabelle
  imports Complex_Main
begin

section \<open>The data lake ETL job of etl.py\<close>

text \<open>
  The job reads two sets of files through a Spark session, derives tables with the
  dataframe operations \<open>select\<close>, \<open>dropDuplicates\<close>, \<open>withColumnRenamed\<close> and
  \<open>filter\<close>, and writes them as parquet directories. The engine is a black box of the
  program: what a read returns is a component of the session, and everything the job does
  with the returned table is modelled operation by operation.
\<close>

subsection \<open>Values, rows and dataframes\<close>

text \<open>
  A cell holds a JSON scalar or SQL \<open>NULL\<close>. A double is modelled by the real number
  it denotes. A row is the list of its cells in the order of the dataframe's columns.
\<close>

datatype val = Null | Str string | Long int | Dbl real

type_synonym row = "val list"

record dataframe =
  columns :: "string list"
  rows :: "row list"

datatype error =
    NameError string
  | AttributeError string
  | AnalysisException string
  | EngineError string

text \<open>The value of column \<open>c\<close> in row \<open>r\<close> of a dataframe with columns \<open>cs\<close>.\<close>

definition cell :: "string list \<Rightarrow> row \<Rightarrow> string \<Rightarrow> val" where
  "cell cs r c = (case map_of (zip cs r) c of Some v \<Rightarrow> v | None \<Rightarrow> Null)"

definition has_columns :: "dataframe \<Rightarrow> string list \<Rightarrow> bool" where
  "has_columns df cs = list_all (\<lambda>c. c \<in> set (columns df)) cs"

text \<open>
  \<open>df.select([c1, ..., cn])\<close>: the projection on the named columns, in the order given.
  A name that is not a column of \<open>df\<close> is an analysis error of the engine.
\<close>

definition select :: "string list \<Rightarrow> dataframe \<Rightarrow> error + dataframe" where
  "select cs df =
     (if has_columns df cs
      then Inr \<lparr>columns = cs, rows = map (\<lambda>r. map (cell (columns df) r) cs) (rows df)\<rparr>
      else Inl (AnalysisException ''cannot resolve column''))"

text \<open>
  \<open>df.dropDuplicates([k1, ..., kn])\<close>: one row is kept for every combination of values
  of the key columns. The engine keeps the row of each group that it meets first; the
  order of \<open>rows\<close> stands for the order in which the engine meets them, which the program
  does not control. \<open>NULL\<close> keys form one group.
\<close>

fun keep_first :: "(row \<Rightarrow> val list) \<Rightarrow> val list list \<Rightarrow> row list \<Rightarrow> row list" where
  "keep_first key seen [] = []"
| "keep_first key seen (r # rs) =
     (if key r \<in> set seen then keep_first key seen rs
      else r # keep_first key (key r # seen) rs)"

definition dropDuplicates :: "string list \<Rightarrow> dataframe \<Rightarrow> error + dataframe" where
  "dropDuplicates ks df =
     (if has_columns df ks
      then Inr (df\<lparr>rows := keep_first (\<lambda>r. map (cell (columns df) r) ks) [] (rows df)\<rparr>)
      else Inl (AnalysisException ''cannot resolve column''))"

text \<open>
  \<open>df.withColumnRenamed(existing, new)\<close> changes the schema only, and is a no-op when
  \<open>existing\<close> is not a column.
\<close>

definition withColumnRenamed :: "string \<Rightarrow> string \<Rightarrow> dataframe \<Rightarrow> dataframe" where
  "withColumnRenamed existing new df =
     df\<lparr>columns := map (\<lambda>c. if c = existing then new else c) (columns df)\<rparr>"

text \<open>
  \<open>df.filter(df.page == 'NextSong')\<close>, line 78: a row is kept when its cell in the
  column \<open>page\<close> is the string \<open>NextSong\<close>. A \<open>NULL\<close> cell compares as not true, and
  so does a numeric cell, which is compared with the literal cast to a number, that is
  with \<open>NULL\<close>. The attribute access \<open>df.page\<close> raises \<open>AttributeError\<close> when \<open>page\<close>
  is not a column.
\<close>

definition filter_NextSong :: "dataframe \<Rightarrow> error + dataframe" where
  "filter_NextSong df =
     (if ''page'' \<in> set (columns df)
      then Inr (df\<lparr>rows := filter (\<lambda>r. cell (columns df) r ''page'' = Str ''NextSong'')
                                (rows df)\<rparr>)
      else Inl (AttributeError ''page''))"

definition bind_err :: "error + 'a \<Rightarrow> ('a \<Rightarrow> error + 'b) \<Rightarrow> error + 'b" where
  "bind_err m f = (case m of Inl e \<Rightarrow> Inl e | Inr x \<Rightarrow> f x)"

subsection \<open>Paths\<close>

text \<open>\<open>os.path.join\<close> of the POSIX path module, one component at a time.\<close>

definition join_step :: "string \<Rightarrow> string \<Rightarrow> string" where
  "join_step path b =
     (if take 1 b = ''/'' then b
      else if path = [] \<or> last path = CHR ''/'' then path @ b
      else path @ ''/'' @ b)"

definition os_path_join :: "string \<Rightarrow> string list \<Rightarrow> string" where
  "os_path_join a p = foldl join_step a p"

subsection \<open>The Spark session\<close>

text \<open>
  \<open>spark.read.json(path)\<close> reads JSON; \<open>spark.read.load(path)\<close> names no format and
  reads in the format of the configuration entry \<open>spark.sql.sources.default\<close>, which is
  parquet unless the environment sets it (\<open>create_spark_session\<close> sets only
  \<open>spark.jars.packages\<close>). What a read of a path in a format returns is the \<open>storage\<close>
  of the session. \<open>written\<close> records the parquet directories written so far.
\<close>

datatype source_format = Parquet | Json | OtherFormat string

datatype save_mode = Append | Overwrite | ErrorIfExists | Ignore

record parquet_dir =
  partition_by :: "string list"
  mode :: save_mode
  content :: dataframe

record spark_session =
  sources_default :: source_format
  storage :: "source_format \<Rightarrow> string \<Rightarrow> error + dataframe"
  written :: "string \<Rightarrow> parquet_dir option"

definition read_load :: "spark_session \<Rightarrow> string \<Rightarrow> error + dataframe" where
  "read_load spark path = storage spark (sources_default spark) path"

definition read_json :: "spark_session \<Rightarrow> string \<Rightarrow> error + dataframe" where
  "read_json spark path = storage spark Json path"

text \<open>
  \<open>df.write.partitionBy(cols).parquet(path, 'overwrite')\<close>: the directory at \<open>path\<close>
  is replaced. The store is taken to accept every write.
\<close>

definition write_parquet ::
  "spark_session \<Rightarrow> string list \<Rightarrow> string \<Rightarrow> save_mode \<Rightarrow> dataframe \<Rightarrow> spark_session" where
  "write_parquet spark cols path m df =
     spark\<lparr>written := (written spark)(path \<mapsto> \<lparr>partition_by = cols, mode = m, content = df\<rparr>)\<rparr>"

subsection \<open>process_song_data\<close>

definition song_data_path :: "string \<Rightarrow> string" where
  "song_data_path input_data =
     os_path_join input_data [''song_data'', ''*'', ''*'', ''*'', ''*.json'']"

definition songs_table :: "dataframe \<Rightarrow> error + dataframe" where
  "songs_table df =
     bind_err (select [''song_id'', ''title'', ''artist_id'', ''year'', ''duration''] df)
       (dropDuplicates [''song_id''])"

definition artists_table :: "dataframe \<Rightarrow> error + dataframe" where
  "artists_table df =
     bind_err
       (bind_err
          (select [''artist_id'', ''artist_name'', ''artist_location'',
                   ''artist_latitude'', ''artist_longitude''] df)
          (dropDuplicates [''artist_id'']))
       (\<lambda>t. Inr (withColumnRenamed ''artist_longitude'' ''longitude''
                 (withColumnRenamed ''artist_latitude'' ''latitude''
                   (withColumnRenamed ''artist_location'' ''location''
                     (withColumnRenamed ''artist_name'' ''name'' t)))))"

definition process_song_data ::
  "spark_session \<Rightarrow> string \<Rightarrow> string \<Rightarrow> (error + unit) \<times> spark_session" where
  "process_song_data spark input_data output_data =
     (case read_load spark (song_data_path input_data) of
        Inl e \<Rightarrow> (Inl e, spark)
      | Inr df \<Rightarrow>
          (case songs_table df of
             Inl e \<Rightarrow> (Inl e, spark)
           | Inr songs \<Rightarrow>
               (let spark1 = write_parquet spark [''year'', ''artist_id'']
                               (os_path_join output_data [''songs'']) Overwrite songs
                in case artists_table df of
                     Inl e \<Rightarrow> (Inl e, spark1)
                   | Inr artists \<Rightarrow>
                       (Inr (), write_parquet spark1 []
                                  (os_path_join output_data [''artists'']) Overwrite artists))))"

subsection \<open>process_log_data\<close>

definition log_data_path :: "string \<Rightarrow> string" where
  "log_data_path input_data = os_path_join input_data [''log_data'', ''*'', ''*'', ''*.json'']"

definition users_table :: "dataframe \<Rightarrow> error + dataframe" where
  "users_table df =
     bind_err
       (bind_err (select [''userId'', ''firstName'', ''lastName'', ''gender'', ''level''] df)
          (dropDuplicates [''userId'']))
       (\<lambda>t. Inr (withColumnRenamed ''lastName'' ''last_name''
                 (withColumnRenamed ''firstName'' ''first_name''
                   (withColumnRenamed ''userId'' ''user_id'' t))))"

text \<open>
  The names that the module binds: its imports (lines 1 to 7), the assignment of line 10
  and its four function definitions. A function body that evaluates any other name, not
  a builtin either, raises \<open>NameError\<close>.
\<close>

definition module_names :: "string list" where
  "module_names =
     [''configparser'', ''datetime'', ''os'', ''SparkSession'', ''udf'', ''col'', ''year'',
      ''month'', ''dayofmonth'', ''hour'', ''weekofyear'', ''date_format'',
      ''monotonically_increasing_id'', ''TimestampType'', ''config'',
      ''create_spark_session'', ''process_song_data'', ''process_log_data'', ''main'']"

definition load_name :: "string \<Rightarrow> error + unit" where
  "load_name n = (if n \<in> set module_names then Inr () else Inl (NameError n))"

text \<open>
  Lines 72 to 92. After the users table is written, line 92 evaluates the name
  \<open>date_convert\<close> as the argument of \<open>udf\<close>. The statements after line 92 run only
  when that name is bound; \<open>log_data_rest\<close> stands for them and takes the state as it
  is then.
\<close>

definition process_log_data ::
  "(spark_session \<Rightarrow> dataframe \<Rightarrow> (error + unit) \<times> spark_session) \<Rightarrow>
   spark_session \<Rightarrow> string \<Rightarrow> string \<Rightarrow> (error + unit) \<times> spark_session" where
  "process_log_data log_data_rest spark input_data output_data =
     (case read_json spark (log_data_path input_data) of
        Inl e \<Rightarrow> (Inl e, spark)
      | Inr df0 \<Rightarrow>
          (case filter_NextSong df0 of
             Inl e \<Rightarrow> (Inl e, spark)
           | Inr df \<Rightarrow>
               (case users_table df of
                  Inl e \<Rightarrow> (Inl e, spark)
                | Inr users \<Rightarrow>
                    (let spark1 = write_parquet spark []
                                    (os_path_join output_data [''users'']) Overwrite users
                     in case load_name ''date_convert'' of
                          Inl e \<Rightarrow> (Inl e, spark1)
                        | Inr _ \<Rightarrow> log_data_rest spark1 df))))"

subsection \<open>main\<close>

definition main :: "(spark_session \<Rightarrow> dataframe \<Rightarrow> (error + unit) \<times> spark_session) \<Rightarrow>
    spark_session \<Rightarrow> (error + unit) \<times> spark_session" where
  "main log_data_rest spark =
     (let input_data = ''s3a://udacity-dend/'';
          output_data = ''s3a://datalake-udacity-haipd4/''
      in case process_song_data spark input_data output_data of
           (Inl e, spark1) \<Rightarrow> (Inl e, spark1)
         | (Inr _, spark1) \<Rightarrow> process_log_data log_data_rest spark1 input_data output_data)"

subsection \<open>Sample inputs\<close>

text \<open>
  A catalog of three records, two of them for the song \<open>S1\<close>, and a log of three events,
  two of them song plays of user \<open>1\<close>. The column order is the one JSON schema inference
  gives (alphabetical).
\<close>

definition sample_catalog :: dataframe where
  "sample_catalog =
     \<lparr>columns = [''artist_id'', ''artist_latitude'', ''artist_location'', ''artist_longitude'',
                 ''artist_name'', ''duration'', ''num_songs'', ''song_id'', ''title'', ''year''],
      rows = [[Str ''A1'', Null, Str ''Hanoi'', Null, Str ''Art'', Dbl 180, Long 1,
               Str ''S1'', Str ''Test'', Long 2000],
              [Str ''A1'', Null, Str ''Hanoi'', Null, Str ''Art'', Dbl 180, Long 1,
               Str ''S1'', Str ''Test (live)'', Long 2001],
              [Str ''A2'', Dbl 21, Str ''Hue'', Dbl 105, Str ''Band'', Dbl 200, Long 1,
               Str ''S2'', Str ''Other'', Long 1999]]\<rparr>"

definition sample_log_columns :: "string list" where
  "sample_log_columns =
     [''artist'', ''firstName'', ''gender'', ''lastName'', ''length'', ''level'', ''location'',
      ''page'', ''sessionId'', ''song'', ''ts'', ''userAgent'', ''userId'']"

definition sample_events :: dataframe where
  "sample_events =
     \<lparr>columns = sample_log_columns,
      rows = [[Str ''Art'', Str ''Ann'', Str ''F'', Str ''Lee'', Dbl 180, Str ''free'',
               Str ''Hanoi'', Str ''NextSong'', Long 7, Str ''Test'', Long 1541903636796,
               Str ''Mozilla'', Str ''1''],
              [Null, Str ''Bob'', Str ''M'', Str ''Ray'', Null, Str ''paid'',
               Str ''Hue'', Str ''Home'', Long 8, Null, Long 1541903640000,
               Str ''Mozilla'', Str ''2''],
              [Str ''Band'', Str ''Ann'', Str ''F'', Str ''Lee'', Dbl 200, Str ''free'',
               Str ''Hanoi'', Str ''NextSong'', Long 7, Str ''Other'', Long 1541903700000,
               Str ''Mozilla'', Str ''1'']]\<rparr>"

definition sample_plays :: dataframe where
  "sample_plays =
     \<lparr>columns = sample_log_columns,
      rows = [[Str ''Art'', Str ''Ann'', Str ''F'', Str ''Lee'', Dbl 180, Str ''free'',
               Str ''Hanoi'', Str ''NextSong'', Long 7, Str ''Test'', Long 1541903636796,
               Str ''Mozilla'', Str ''1''],
              [Str ''Band'', Str ''Ann'', Str ''F'', Str ''Lee'', Dbl 200, Str ''free'',
               Str ''Hanoi'', Str ''NextSong'', Long 7, Str ''Other'', Long 1541903700000,
               Str ''Mozilla'', Str ''1'']]\<rparr>"

definition home_events :: dataframe where
  "home_events =
     \<lparr>columns = sample_log_columns,
      rows = [[Null, Str ''Bob'', Str ''M'', Str ''Ray'', Null, Str ''paid'',
               Str ''Hue'', Str ''Home'', Long 8, Null, Long 1541903640000,
               Str ''Mozilla'', Str ''2'']]\<rparr>"

text \<open>
  A store under the root \<open>in\<close> whose files are JSON: a read in another format fails.
\<close>

definition json_lake :: "dataframe \<Rightarrow> dataframe \<Rightarrow> source_format \<Rightarrow> string \<Rightarrow> error + dataframe" where
  "json_lake catalog events fmt path =
     (if fmt = Json
      then (if path = ''in/song_data/*/*/*/*.json'' then Inr catalog
            else if path = ''in/song_data/*/*/*'' then Inr catalog
            else if path = ''in/log_data/*/*/*.json'' then Inr events
            else Inl (EngineError ''Path does not exist''))
      else if fmt = Parquet then Inl (EngineError ''not a Parquet file'')
      else Inl (EngineError ''cannot read in this format''))"

text \<open>
  The session as \<open>create_spark_session\<close> configures it: the default source is the
  engine's own, parquet.
\<close>

definition stock_session :: "dataframe \<Rightarrow> spark_session" where
  "stock_session events =
     \<lparr>sources_default = Parquet, storage = json_lake sample_catalog events,
      written = Map.empty\<rparr>"

text \<open>A session on a store that holds the log and no catalog at all.\<close>

definition log_only_session :: spark_session where
  "log_only_session =
     \<lparr>sources_default = Parquet,
      storage = (\<lambda>fmt path. if fmt = Json \<and> path = ''in/log_data/*/*/*.json''
                            then Inr sample_events
                            else Inl (EngineError ''Path does not exist'')),
      written = Map.empty\<rparr>"

section \<open>Properties\<close>

subsection \<open>Deduplication and projection\<close>

lemma keep_first_subset: "set (keep_first key seen rs) \<subseteq> set rs"
  by (induction rs arbitrary: seen) auto

lemma keep_first_count:
  "length (filter (\<lambda>r. key r = k) (keep_first key seen rs)) =
     (if k \<in> key ` set rs - set seen then 1 else 0)"
proof (induction rs arbitrary: seen)
  case Nil
  show ?case by simp
next
  case (Cons r rs)
  show ?case
  proof (cases "key r \<in> set seen")
    case True
    then show ?thesis using Cons.IH [of seen] by auto
  next
    case False
    then show ?thesis using Cons.IH [of "key r # seen"] by auto
  qed
qed

lemma cell_select:
  "c \<in> set cs \<Longrightarrow> cell cs (map f cs) c = f c"
  by (simp add: cell_def map_of_zip_map)

lemma cell_first: "cell (k # cs) \<rho> k = cell (k' # cs') \<rho> k'"
  by (cases \<rho>) (simp_all add: cell_def)

lemma keep_first_select_source:
  assumes "\<rho> \<in> set (keep_first key seen (map (\<lambda>r. map (cell cs0 r) cs) rs))"
  shows "\<exists>r\<in>set rs. \<rho> = map (cell cs0 r) cs"
  using assms keep_first_subset [of key seen "map (\<lambda>r. map (cell cs0 r) cs) rs"] by auto

lemma keep_first_select_count:
  assumes "k \<in> set cs"
  shows "length (filter (\<lambda>\<rho>. cell cs \<rho> k = v)
            (keep_first (\<lambda>\<rho>. [cell cs \<rho> k]) [] (map (\<lambda>r. map (cell cs0 r) cs) rs))) =
         (if v \<in> (\<lambda>r. cell cs0 r k) ` set rs then 1 else 0)"
proof -
  let ?P = "map (\<lambda>r. map (cell cs0 r) cs) rs"
  let ?key = "\<lambda>\<rho>. [cell cs \<rho> k]"
  have img: "?key ` set ?P = (\<lambda>r. [cell cs0 r k]) ` set rs"
    using assms by (simp add: image_image cell_select)
  have "length (filter (\<lambda>\<rho>. ?key \<rho> = [v]) (keep_first ?key [] ?P)) =
          (if [v] \<in> ?key ` set ?P - set [] then 1 else 0)"
    by (rule keep_first_count)
  moreover have "([v] \<in> (\<lambda>r. [cell cs0 r k]) ` set rs) = (v \<in> (\<lambda>r. cell cs0 r k) ` set rs)"
    by auto
  ultimately show ?thesis using img by simp
qed

subsection \<open>Paths\<close>

lemma join_one: "os_path_join a [b] = join_step a b"
  by (simp add: os_path_join_def)

lemma join_step_cases:
  "take 1 b \<noteq> ''/'' \<Longrightarrow> join_step a b = (if a = [] \<or> last a = CHR ''/'' then a else a @ ''/'') @ b"
  by (simp add: join_step_def)

lemma out_songs_artists: "os_path_join out [''songs''] \<noteq> os_path_join out [''artists'']"
  by (simp add: join_one join_step_cases)

lemma out_users_times: "os_path_join out [''times''] \<noteq> os_path_join out [''users'']"
  by (simp add: join_one join_step_cases)

lemma out_users_songplays: "os_path_join out [''songplays''] \<noteq> os_path_join out [''users'']"
  by (simp add: join_one join_step_cases)

lemma log_path_differs: "log_data_path input_data \<noteq> song_data_path input_data"
  by (simp add: log_data_path_def song_data_path_def os_path_join_def join_step_def)

subsection \<open>The derived tables\<close>

lemma select_Inr:
  "has_columns df cs \<Longrightarrow>
   select cs df = Inr \<lparr>columns = cs, rows = map (\<lambda>r. map (cell (columns df) r) cs) (rows df)\<rparr>"
  by (simp add: select_def)

lemma songs_table_Inr:
  assumes "has_columns df [''song_id'', ''title'', ''artist_id'', ''year'', ''duration'']"
  shows "songs_table df =
     Inr \<lparr>columns = [''song_id'', ''title'', ''artist_id'', ''year'', ''duration''],
          rows = keep_first (\<lambda>r. [cell [''song_id'', ''title'', ''artist_id'', ''year'', ''duration''] r ''song_id'']) []
                   (map (\<lambda>r. map (cell (columns df) r) [''song_id'', ''title'', ''artist_id'', ''year'', ''duration'']) (rows df))\<rparr>"
  using assms by (simp add: songs_table_def select_Inr bind_err_def dropDuplicates_def has_columns_def)

lemma artists_table_Inr:
  assumes "has_columns df [''artist_id'', ''artist_name'', ''artist_location'',
                           ''artist_latitude'', ''artist_longitude'']"
  shows "artists_table df =
     Inr \<lparr>columns = [''artist_id'', ''name'', ''location'', ''latitude'', ''longitude''],
          rows = keep_first (\<lambda>\<rho>. [cell [''artist_id'', ''artist_name'', ''artist_location'',
                                   ''artist_latitude'', ''artist_longitude''] \<rho> ''artist_id'']) []
                   (map (\<lambda>r. map (cell (columns df) r) [''artist_id'', ''artist_name'', ''artist_location'',
                           ''artist_latitude'', ''artist_longitude'']) (rows df))\<rparr>"
  using assms by (simp add: artists_table_def select_Inr bind_err_def dropDuplicates_def
      has_columns_def withColumnRenamed_def)

lemma filter_NextSong_Inr:
  assumes "''page'' \<in> set (columns df)"
  shows "filter_NextSong df =
     Inr \<lparr>columns = columns df,
          rows = filter (\<lambda>r. cell (columns df) r ''page'' = Str ''NextSong'') (rows df)\<rparr>"
  using assms by (simp add: filter_NextSong_def)

lemma users_table_Inr:
  assumes "has_columns df [''userId'', ''firstName'', ''lastName'', ''gender'', ''level'']"
  shows "users_table df =
     Inr \<lparr>columns = [''user_id'', ''first_name'', ''last_name'', ''gender'', ''level''],
          rows = keep_first (\<lambda>\<rho>. [cell [''userId'', ''firstName'', ''lastName'', ''gender'', ''level''] \<rho> ''userId'']) []
                   (map (\<lambda>r. map (cell (columns df) r) [''userId'', ''firstName'', ''lastName'', ''gender'', ''level'']) (rows df))\<rparr>"
  using assms by (simp add: users_table_def select_Inr bind_err_def dropDuplicates_def
      has_columns_def withColumnRenamed_def)

subsection \<open>What the two stages write\<close>

lemma written_songs:
  assumes "read_load spark (song_data_path input_data) = Inr df"
    and "songs_table df = Inr songs"
  shows "written (snd (process_song_data spark input_data output_data))
           (os_path_join output_data [''songs'']) =
         Some \<lparr>partition_by = [''year'', ''artist_id''], mode = Overwrite, content = songs\<rparr>"
  using assms
  by (simp add: process_song_data_def write_parquet_def Let_def out_songs_artists split: sum.splits)

lemma written_artists:
  assumes "read_load spark (song_data_path input_data) = Inr df"
    and "songs_table df = Inr songs" and "artists_table df = Inr artists"
  shows "written (snd (process_song_data spark input_data output_data))
           (os_path_join output_data [''artists'']) =
         Some \<lparr>partition_by = [], mode = Overwrite, content = artists\<rparr>"
  using assms
  by (simp add: process_song_data_def write_parquet_def Let_def)

lemma load_name_date_convert: "load_name ''date_convert'' = Inl (NameError ''date_convert'')"
  by (simp add: load_name_def module_names_def)

lemma load_name_dayofweek: "load_name ''dayofweek'' = Inl (NameError ''dayofweek'')"
  by (simp add: load_name_def module_names_def)

lemma process_log_data_result:
  assumes "read_json spark (log_data_path input_data) = Inr df0"
    and "filter_NextSong df0 = Inr df"
    and "users_table df = Inr users"
  shows "process_log_data log_data_rest spark input_data output_data =
     (Inl (NameError ''date_convert''),
      write_parquet spark [] (os_path_join output_data [''users'']) Overwrite users)"
  using assms by (simp add: process_log_data_def load_name_date_convert)


lemma process_log_data_raises:
  "\<exists>e. fst (process_log_data log_data_rest spark input_data output_data) = Inl e"
  by (auto simp: process_log_data_def load_name_date_convert split: sum.splits)

lemma process_log_data_writes_users_only:
  "p \<noteq> os_path_join output_data [''users''] \<Longrightarrow>
   written (snd (process_log_data log_data_rest spark input_data output_data)) p = written spark p"
  by (auto simp: process_log_data_def load_name_date_convert write_parquet_def split: sum.splits)

lemma main_raises: "\<exists>e. fst (main log_data_rest spark) = Inl e"
proof (cases "process_song_data spark ''s3a://udacity-dend/'' ''s3a://datalake-udacity-haipd4/''")
  case (Pair res spark1)
  then show ?thesis
    using process_log_data_raises
      [of log_data_rest spark1 "''s3a://udacity-dend/''" "''s3a://datalake-udacity-haipd4/''"]
    by (cases res) (auto simp: main_def)
qed

lemma song_stage_frame:
  assumes "sources_default spark' = sources_default spark"
    and "storage spark' (sources_default spark) (song_data_path input_data) =
         storage spark (sources_default spark) (song_data_path input_data)"
    and "written spark' = written spark"
  shows "fst (process_song_data spark' input_data output_data) =
           fst (process_song_data spark input_data output_data) \<and>
         written (snd (process_song_data spark' input_data output_data)) =
           written (snd (process_song_data spark input_data output_data))"
  using assms
  by (simp add: process_song_data_def read_load_def write_parquet_def Let_def split: sum.splits)

subsection \<open>The sample inputs, evaluated\<close>

lemma song_data_path_in: "song_data_path ''in'' = ''in/song_data/*/*/*/*.json''"
  by (simp add: song_data_path_def os_path_join_def join_step_def)

lemma log_data_path_in: "log_data_path ''in'' = ''in/log_data/*/*/*.json''"
  by (simp add: log_data_path_def os_path_join_def join_step_def)

lemma sample_catalog_song_columns:
  "has_columns sample_catalog [''song_id'', ''title'', ''artist_id'', ''year'', ''duration'']"
  by (simp add: has_columns_def sample_catalog_def)

lemma sample_catalog_artist_columns:
  "has_columns sample_catalog [''artist_id'', ''artist_name'', ''artist_location'',
                         ''artist_latitude'', ''artist_longitude'']"
  by (simp add: has_columns_def sample_catalog_def)

lemma sample_songs_table:
  "songs_table sample_catalog =
     Inr \<lparr>columns = [''song_id'', ''title'', ''artist_id'', ''year'', ''duration''],
          rows = [[Str ''S1'', Str ''Test'', Str ''A1'', Long 2000, Dbl 180],
                  [Str ''S2'', Str ''Other'', Str ''A2'', Long 1999, Dbl 200]]\<rparr>"
  by (simp add: songs_table_Inr [OF sample_catalog_song_columns])
     (simp add: sample_catalog_def cell_def)

lemma sample_artists_table:
  "artists_table sample_catalog =
     Inr \<lparr>columns = [''artist_id'', ''name'', ''location'', ''latitude'', ''longitude''],
          rows = [[Str ''A1'', Str ''Art'', Str ''Hanoi'', Null, Null],
                  [Str ''A2'', Str ''Band'', Str ''Hue'', Dbl 21, Dbl 105]]\<rparr>"
  by (simp add: artists_table_Inr [OF sample_catalog_artist_columns])
     (simp add: sample_catalog_def cell_def)

lemma read_sample_events:
  "read_json (stock_session sample_events) (log_data_path ''in'') = Inr sample_events"
  by (simp add: read_json_def stock_session_def json_lake_def log_data_path_in)

lemma sample_events_columns:
  "has_columns sample_events
     [''page'', ''userId'', ''firstName'', ''lastName'', ''gender'', ''level'']"
  by (simp add: has_columns_def sample_events_def sample_log_columns_def)

lemma sample_filter:
  "filter_NextSong sample_events =
     Inr sample_plays"
  by (simp add: filter_NextSong_def sample_events_def sample_plays_def sample_log_columns_def cell_def)

lemma sample_users_table:
  "users_table sample_plays =
     Inr \<lparr>columns = [''user_id'', ''first_name'', ''last_name'', ''gender'', ''level''],
          rows = [[Str ''1'', Str ''Ann'', Str ''Lee'', Str ''F'', Str ''free'']]\<rparr>"
  by (simp add: users_table_def select_def bind_err_def dropDuplicates_def
      has_columns_def withColumnRenamed_def sample_plays_def sample_log_columns_def cell_def)

lemma read_home_events:
  "read_json (stock_session home_events) (log_data_path ''in'') = Inr home_events"
  by (simp add: read_json_def stock_session_def json_lake_def log_data_path_in)

lemma home_filter:
  "filter_NextSong home_events =
     Inr \<lparr>columns = sample_log_columns, rows = []\<rparr>"
  by (simp add: filter_NextSong_def home_events_def sample_log_columns_def cell_def)

lemma home_users_table:
  "users_table \<lparr>columns = sample_log_columns, rows = []\<rparr> =
     Inr \<lparr>columns = [''user_id'', ''first_name'', ''last_name'', ''gender'', ''level''],
          rows = []\<rparr>"
  by (simp add: users_table_def select_def bind_err_def dropDuplicates_def
      has_columns_def withColumnRenamed_def sample_log_columns_def)

subsection \<open>The catalog stage\<close>

text \<open>
  Claim C4 fails on the code. On a store whose catalog files are JSON, with the session as
  \<open>create_spark_session\<close> configures it, the JSON read of the catalog pattern (the read
  the event stage uses) returns the catalog, while the \<open>load\<close> of \<open>process_song_data\<close>
  reads the same pattern as parquet and fails, and the stage writes nothing.
\<close>

theorem load_reads_default_source:
  "read_json (stock_session sample_events) (song_data_path ''in'') = Inr sample_catalog \<and>
   read_load (stock_session sample_events) (song_data_path ''in'') =
     Inl (EngineError ''not a Parquet file'') \<and>
   process_song_data (stock_session sample_events) ''in'' ''out'' =
     (Inl (EngineError ''not a Parquet file''), stock_session sample_events)"
  by (simp add: process_song_data_def read_load_def read_json_def stock_session_def
      json_lake_def song_data_path_in)

text \<open>
  Lines 42 to 48 by themselves: when the load of line 40 does return a table \<open>df\<close> with the
  five song columns, the directory \<open>songs\<close> is written in overwrite mode, partitioned by
  \<open>year\<close> and \<open>artist_id\<close>; every song id of \<open>df\<close> has exactly one row and no other
  value has a row; and every row agrees in all five columns with one and the same row of
  \<open>df\<close>.
\<close>

lemma songs_written_if_loaded:
  assumes "read_load spark (song_data_path input_data) = Inr df"
    and "has_columns df [''song_id'', ''title'', ''artist_id'', ''year'', ''duration'']"
  shows "\<exists>songs.
      written (snd (process_song_data spark input_data output_data))
        (os_path_join output_data [''songs'']) =
        Some \<lparr>partition_by = [''year'', ''artist_id''], mode = Overwrite, content = songs\<rparr> \<and>
      columns songs = [''song_id'', ''title'', ''artist_id'', ''year'', ''duration''] \<and>
      (\<forall>v. length (filter (\<lambda>\<rho>. cell (columns songs) \<rho> ''song_id'' = v) (rows songs)) =
           (if v \<in> (\<lambda>r. cell (columns df) r ''song_id'') ` set (rows df) then 1 else 0)) \<and>
      (\<forall>\<rho>\<in>set (rows songs). \<exists>r\<in>set (rows df).
           cell (columns songs) \<rho> ''song_id'' = cell (columns df) r ''song_id'' \<and>
           cell (columns songs) \<rho> ''title'' = cell (columns df) r ''title'' \<and>
           cell (columns songs) \<rho> ''artist_id'' = cell (columns df) r ''artist_id'' \<and>
           cell (columns songs) \<rho> ''year'' = cell (columns df) r ''year'' \<and>
           cell (columns songs) \<rho> ''duration'' = cell (columns df) r ''duration'')"
proof -
  let ?cs = "[''song_id'', ''title'', ''artist_id'', ''year'', ''duration'']"
  let ?rows = "keep_first (\<lambda>\<rho>. [cell ?cs \<rho> ''song_id'']) []
                 (map (\<lambda>r. map (cell (columns df) r) ?cs) (rows df))"
  let ?songs = "\<lparr>columns = ?cs, rows = ?rows\<rparr>"
  have tab: "songs_table df = Inr ?songs"
    using assms(2) by (rule songs_table_Inr)
  have w: "written (snd (process_song_data spark input_data output_data))
        (os_path_join output_data [''songs'']) =
        Some \<lparr>partition_by = [''year'', ''artist_id''], mode = Overwrite, content = ?songs\<rparr>"
    using assms(1) tab by (rule written_songs)
  have cnt: "\<forall>v. length (filter (\<lambda>\<rho>. cell ?cs \<rho> ''song_id'' = v) ?rows) =
           (if v \<in> (\<lambda>r. cell (columns df) r ''song_id'') ` set (rows df) then 1 else 0)"
    using keep_first_select_count [of "''song_id''" ?cs _ "columns df" "rows df"] by simp
  have src: "\<forall>\<rho>\<in>set ?rows. \<exists>r\<in>set (rows df).
           cell ?cs \<rho> ''song_id'' = cell (columns df) r ''song_id'' \<and>
           cell ?cs \<rho> ''title'' = cell (columns df) r ''title'' \<and>
           cell ?cs \<rho> ''artist_id'' = cell (columns df) r ''artist_id'' \<and>
           cell ?cs \<rho> ''year'' = cell (columns df) r ''year'' \<and>
           cell ?cs \<rho> ''duration'' = cell (columns df) r ''duration''"
  proof
    fix \<rho> assume "\<rho> \<in> set ?rows"
    then obtain r where r: "r \<in> set (rows df)" and eq: "\<rho> = map (cell (columns df) r) ?cs"
      using keep_first_select_source by blast
    have "\<forall>c\<in>set ?cs. cell ?cs \<rho> c = cell (columns df) r c"
      unfolding eq using cell_select [of _ ?cs "cell (columns df) r"] by blast
    then show "\<exists>r\<in>set (rows df).
           cell ?cs \<rho> ''song_id'' = cell (columns df) r ''song_id'' \<and>
           cell ?cs \<rho> ''title'' = cell (columns df) r ''title'' \<and>
           cell ?cs \<rho> ''artist_id'' = cell (columns df) r ''artist_id'' \<and>
           cell ?cs \<rho> ''year'' = cell (columns df) r ''year'' \<and>
           cell ?cs \<rho> ''duration'' = cell (columns df) r ''duration''"
      using r by auto
  qed
  show ?thesis
    apply (rule exI [of _ ?songs])
    using w cnt src by simp
qed

text \<open>
  Lines 50 to 60 by themselves: when the load of line 40 does return a table \<open>df\<close> with the
  song and the artist columns, the directory \<open>artists\<close> is written unpartitioned in
  overwrite mode with the columns \<open>artist_id\<close>, \<open>name\<close>, \<open>location\<close>, \<open>latitude\<close>,
  \<open>longitude\<close>; every artist id of \<open>df\<close> has exactly one row and no other value has a
  row; and every row holds, under the new names, the values of one and the same row of
  \<open>df\<close>.
\<close>

lemma artists_written_if_loaded:
  assumes "read_load spark (song_data_path input_data) = Inr df"
    and "has_columns df [''song_id'', ''title'', ''artist_id'', ''year'', ''duration'']"
    and "has_columns df [''artist_id'', ''artist_name'', ''artist_location'',
                         ''artist_latitude'', ''artist_longitude'']"
  shows "\<exists>artists.
      written (snd (process_song_data spark input_data output_data))
        (os_path_join output_data [''artists'']) =
        Some \<lparr>partition_by = [], mode = Overwrite, content = artists\<rparr> \<and>
      columns artists = [''artist_id'', ''name'', ''location'', ''latitude'', ''longitude''] \<and>
      (\<forall>v. length (filter (\<lambda>\<rho>. cell (columns artists) \<rho> ''artist_id'' = v) (rows artists)) =
           (if v \<in> (\<lambda>r. cell (columns df) r ''artist_id'') ` set (rows df) then 1 else 0)) \<and>
      (\<forall>\<rho>\<in>set (rows artists). \<exists>r\<in>set (rows df).
           cell (columns artists) \<rho> ''artist_id'' = cell (columns df) r ''artist_id'' \<and>
           cell (columns artists) \<rho> ''name'' = cell (columns df) r ''artist_name'' \<and>
           cell (columns artists) \<rho> ''location'' = cell (columns df) r ''artist_location'' \<and>
           cell (columns artists) \<rho> ''latitude'' = cell (columns df) r ''artist_latitude'' \<and>
           cell (columns artists) \<rho> ''longitude'' = cell (columns df) r ''artist_longitude'')"
proof -
  let ?cs = "[''artist_id'', ''artist_name'', ''artist_location'',
              ''artist_latitude'', ''artist_longitude'']"
  let ?out = "[''artist_id'', ''name'', ''location'', ''latitude'', ''longitude'']"
  let ?rows = "keep_first (\<lambda>\<rho>. [cell ?cs \<rho> ''artist_id'']) []
                 (map (\<lambda>r. map (cell (columns df) r) ?cs) (rows df))"
  let ?artists = "\<lparr>columns = ?out, rows = ?rows\<rparr>"
  obtain songs where songs: "songs_table df = Inr songs"
    using songs_table_Inr [OF assms(2)] by blast
  have tab: "artists_table df = Inr ?artists"
    using assms(3) by (rule artists_table_Inr)
  have w: "written (snd (process_song_data spark input_data output_data))
        (os_path_join output_data [''artists'']) =
        Some \<lparr>partition_by = [], mode = Overwrite, content = ?artists\<rparr>"
    using assms(1) songs tab by (rule written_artists)
  have "\<forall>v. length (filter (\<lambda>\<rho>. cell ?cs \<rho> ''artist_id'' = v) ?rows) =
           (if v \<in> (\<lambda>r. cell (columns df) r ''artist_id'') ` set (rows df) then 1 else 0)"
    using keep_first_select_count [of "''artist_id''" ?cs _ "columns df" "rows df"] by simp
  moreover have "\<And>\<rho>. cell ?out \<rho> ''artist_id'' = cell ?cs \<rho> ''artist_id''"
    by (rule cell_first)
  ultimately have cnt: "\<forall>v. length (filter (\<lambda>\<rho>. cell ?out \<rho> ''artist_id'' = v) ?rows) =
           (if v \<in> (\<lambda>r. cell (columns df) r ''artist_id'') ` set (rows df) then 1 else 0)"
    by simp
  have src: "\<forall>\<rho>\<in>set ?rows. \<exists>r\<in>set (rows df).
           cell ?out \<rho> ''artist_id'' = cell (columns df) r ''artist_id'' \<and>
           cell ?out \<rho> ''name'' = cell (columns df) r ''artist_name'' \<and>
           cell ?out \<rho> ''location'' = cell (columns df) r ''artist_location'' \<and>
           cell ?out \<rho> ''latitude'' = cell (columns df) r ''artist_latitude'' \<and>
           cell ?out \<rho> ''longitude'' = cell (columns df) r ''artist_longitude''"
  proof
    fix \<rho> assume "\<rho> \<in> set ?rows"
    then obtain r where r: "r \<in> set (rows df)" and eq: "\<rho> = map (cell (columns df) r) ?cs"
      using keep_first_select_source by blast
    have "cell ?out \<rho> ''artist_id'' = cell (columns df) r ''artist_id'' \<and>
           cell ?out \<rho> ''name'' = cell (columns df) r ''artist_name'' \<and>
           cell ?out \<rho> ''location'' = cell (columns df) r ''artist_location'' \<and>
           cell ?out \<rho> ''latitude'' = cell (columns df) r ''artist_latitude'' \<and>
           cell ?out \<rho> ''longitude'' = cell (columns df) r ''artist_longitude''"
      unfolding eq by (simp add: cell_def [of ?out])
    then show "\<exists>r\<in>set (rows df).
           cell ?out \<rho> ''artist_id'' = cell (columns df) r ''artist_id'' \<and>
           cell ?out \<rho> ''name'' = cell (columns df) r ''artist_name'' \<and>
           cell ?out \<rho> ''location'' = cell (columns df) r ''artist_location'' \<and>
           cell ?out \<rho> ''latitude'' = cell (columns df) r ''artist_latitude'' \<and>
           cell ?out \<rho> ''longitude'' = cell (columns df) r ''artist_longitude''"
      using r by blast
  qed
  show ?thesis
    apply (rule exI [of _ ?artists])
    using w cnt src by simp
qed

text \<open>
  Claim C7 fails on the code. On a store whose catalog files are JSON, with the session as
  \<open>create_spark_session\<close> configures it, the catalog is there to be read as JSON and the
  songs table that lines 43 and 44 derive from it has one row per song id; but
  \<open>process_song_data\<close> fails in the load of line 40 and writes no directory \<open>songs\<close>.
\<close>

theorem songs_not_written_on_json_catalog:
  "read_json (stock_session sample_events) (song_data_path ''in'') = Inr sample_catalog \<and>
   songs_table sample_catalog =
     Inr \<lparr>columns = [''song_id'', ''title'', ''artist_id'', ''year'', ''duration''],
          rows = [[Str ''S1'', Str ''Test'', Str ''A1'', Long 2000, Dbl 180],
                  [Str ''S2'', Str ''Other'', Str ''A2'', Long 1999, Dbl 200]]\<rparr> \<and>
   fst (process_song_data (stock_session sample_events) ''in'' ''out'') =
     Inl (EngineError ''not a Parquet file'') \<and>
   written (snd (process_song_data (stock_session sample_events) ''in'' ''out''))
     ''out/songs'' = None"
proof -
  have "process_song_data (stock_session sample_events) ''in'' ''out'' =
     (Inl (EngineError ''not a Parquet file''), stock_session sample_events)"
    by (simp add: process_song_data_def read_load_def stock_session_def json_lake_def
        song_data_path_in)
  moreover have "written (stock_session sample_events) ''out/songs'' = None"
    by (simp add: stock_session_def)
  moreover have "read_json (stock_session sample_events) (song_data_path ''in'') =
      Inr sample_catalog"
    by (simp add: read_json_def stock_session_def json_lake_def song_data_path_in)
  ultimately show ?thesis
    using sample_songs_table by simp
qed

text \<open>
  Claim C8 fails on the code. On the same store and session, the artists table that lines
  51 to 56 derive from the catalog has one row per artist id under the new column names;
  but \<open>process_song_data\<close> fails in the load of line 40 and writes no directory
  \<open>artists\<close>.
\<close>

theorem artists_not_written_on_json_catalog:
  "read_json (stock_session sample_events) (song_data_path ''in'') = Inr sample_catalog \<and>
   artists_table sample_catalog =
     Inr \<lparr>columns = [''artist_id'', ''name'', ''location'', ''latitude'', ''longitude''],
          rows = [[Str ''A1'', Str ''Art'', Str ''Hanoi'', Null, Null],
                  [Str ''A2'', Str ''Band'', Str ''Hue'', Dbl 21, Dbl 105]]\<rparr> \<and>
   fst (process_song_data (stock_session sample_events) ''in'' ''out'') =
     Inl (EngineError ''not a Parquet file'') \<and>
   written (snd (process_song_data (stock_session sample_events) ''in'' ''out''))
     ''out/artists'' = None"
proof -
  have "process_song_data (stock_session sample_events) ''in'' ''out'' =
     (Inl (EngineError ''not a Parquet file''), stock_session sample_events)"
    by (simp add: process_song_data_def read_load_def stock_session_def json_lake_def
        song_data_path_in)
  moreover have "written (stock_session sample_events) ''out/artists'' = None"
    by (simp add: stock_session_def)
  moreover have "read_json (stock_session sample_events) (song_data_path ''in'') =
      Inr sample_catalog"
    by (simp add: read_json_def stock_session_def json_lake_def song_data_path_in)
  ultimately show ?thesis
    using sample_artists_table by simp
qed

subsection \<open>The event stage\<close>

text \<open>
  Claim C6. Whenever the log read of \<open>process_log_data\<close> returns a table \<open>df\<close> with the
  columns used, the directory \<open>users\<close> is written unpartitioned in overwrite mode with the
  columns \<open>user_id\<close>, \<open>first_name\<close>, \<open>last_name\<close>, \<open>gender\<close>, \<open>level\<close>; a value has exactly
  one row when it is the user id of a row of \<open>df\<close> whose page is \<open>NextSong\<close>, and no row
  otherwise (so a user seen on other pages only has none); and every row holds, under the
  new names, the values of one such row of \<open>df\<close>. This holds whatever the statements
  after line 92 are.
\<close>

theorem users_one_row_per_NextSong_user:
  assumes "read_json spark (log_data_path input_data) = Inr df"
    and "has_columns df [''page'', ''userId'', ''firstName'', ''lastName'', ''gender'', ''level'']"
  shows "\<exists>users.
      written (snd (process_log_data log_data_rest spark input_data output_data))
        (os_path_join output_data [''users'']) =
        Some \<lparr>partition_by = [], mode = Overwrite, content = users\<rparr> \<and>
      columns users = [''user_id'', ''first_name'', ''last_name'', ''gender'', ''level''] \<and>
      (\<forall>v. length (filter (\<lambda>\<rho>. cell (columns users) \<rho> ''user_id'' = v) (rows users)) =
           (if v \<in> (\<lambda>r. cell (columns df) r ''userId'') `
                   {r \<in> set (rows df). cell (columns df) r ''page'' = Str ''NextSong''}
            then 1 else 0)) \<and>
      (\<forall>\<rho>\<in>set (rows users). \<exists>r\<in>set (rows df).
           cell (columns df) r ''page'' = Str ''NextSong'' \<and>
           cell (columns users) \<rho> ''user_id'' = cell (columns df) r ''userId'' \<and>
           cell (columns users) \<rho> ''first_name'' = cell (columns df) r ''firstName'' \<and>
           cell (columns users) \<rho> ''last_name'' = cell (columns df) r ''lastName'' \<and>
           cell (columns users) \<rho> ''gender'' = cell (columns df) r ''gender'' \<and>
           cell (columns users) \<rho> ''level'' = cell (columns df) r ''level'')"
proof -
  let ?cs = "[''userId'', ''firstName'', ''lastName'', ''gender'', ''level'']"
  let ?out = "[''user_id'', ''first_name'', ''last_name'', ''gender'', ''level'']"
  let ?plays = "filter (\<lambda>r. cell (columns df) r ''page'' = Str ''NextSong'') (rows df)"
  let ?rows = "keep_first (\<lambda>\<rho>. [cell ?cs \<rho> ''userId'']) []
                 (map (\<lambda>r. map (cell (columns df) r) ?cs) ?plays)"
  let ?users = "\<lparr>columns = ?out, rows = ?rows\<rparr>"
  let ?df = "\<lparr>columns = columns df, rows = ?plays\<rparr>"
  have page: "''page'' \<in> set (columns df)"
    using assms(2) by (simp add: has_columns_def)
  have flt: "filter_NextSong df = Inr ?df"
    using page by (rule filter_NextSong_Inr)
  have "has_columns ?df ?cs"
    using assms(2) by (simp add: has_columns_def)
  then have tab: "users_table ?df = Inr ?users"
    using users_table_Inr [of ?df] by simp
  have w: "written (snd (process_log_data log_data_rest spark input_data output_data))
        (os_path_join output_data [''users'']) =
        Some \<lparr>partition_by = [], mode = Overwrite, content = ?users\<rparr>"
    using process_log_data_result [OF assms(1) flt tab] by (simp add: write_parquet_def)
  have "\<forall>v. length (filter (\<lambda>\<rho>. cell ?cs \<rho> ''userId'' = v) ?rows) =
           (if v \<in> (\<lambda>r. cell (columns df) r ''userId'') ` set ?plays then 1 else 0)"
    using keep_first_select_count [of "''userId''" ?cs _ "columns df" ?plays] by simp
  moreover have "\<And>\<rho>. cell ?out \<rho> ''user_id'' = cell ?cs \<rho> ''userId''"
    by (rule cell_first)
  ultimately have cnt: "\<forall>v. length (filter (\<lambda>\<rho>. cell ?out \<rho> ''user_id'' = v) ?rows) =
           (if v \<in> (\<lambda>r. cell (columns df) r ''userId'') `
                   {r \<in> set (rows df). cell (columns df) r ''page'' = Str ''NextSong''}
            then 1 else 0)"
    by simp
  have src: "\<forall>\<rho>\<in>set ?rows. \<exists>r\<in>set (rows df).
           cell (columns df) r ''page'' = Str ''NextSong'' \<and>
           cell ?out \<rho> ''user_id'' = cell (columns df) r ''userId'' \<and>
           cell ?out \<rho> ''first_name'' = cell (columns df) r ''firstName'' \<and>
           cell ?out \<rho> ''last_name'' = cell (columns df) r ''lastName'' \<and>
           cell ?out \<rho> ''gender'' = cell (columns df) r ''gender'' \<and>
           cell ?out \<rho> ''level'' = cell (columns df) r ''level''"
  proof
    fix \<rho> assume "\<rho> \<in> set ?rows"
    then obtain r where r: "r \<in> set ?plays" and eq: "\<rho> = map (cell (columns df) r) ?cs"
      using keep_first_select_source by blast
    have "cell ?out \<rho> ''user_id'' = cell (columns df) r ''userId'' \<and>
           cell ?out \<rho> ''first_name'' = cell (columns df) r ''firstName'' \<and>
           cell ?out \<rho> ''last_name'' = cell (columns df) r ''lastName'' \<and>
           cell ?out \<rho> ''gender'' = cell (columns df) r ''gender'' \<and>
           cell ?out \<rho> ''level'' = cell (columns df) r ''level''"
      unfolding eq by (simp add: cell_def [of ?out])
    then show "\<exists>r\<in>set (rows df).
           cell (columns df) r ''page'' = Str ''NextSong'' \<and>
           cell ?out \<rho> ''user_id'' = cell (columns df) r ''userId'' \<and>
           cell ?out \<rho> ''first_name'' = cell (columns df) r ''firstName'' \<and>
           cell ?out \<rho> ''last_name'' = cell (columns df) r ''lastName'' \<and>
           cell ?out \<rho> ''gender'' = cell (columns df) r ''gender'' \<and>
           cell ?out \<rho> ''level'' = cell (columns df) r ''level''"
      using r by auto
  qed
  show ?thesis
    apply (rule exI [of _ ?users])
    using w cnt src by simp
qed

theorem users_one_row_per_NextSong_user_witness:
  "read_json (stock_session sample_events) (log_data_path ''in'') = Inr sample_events \<and>
   has_columns sample_events
     [''page'', ''userId'', ''firstName'', ''lastName'', ''gender'', ''level''] \<and>
   (\<exists>users.
      written (snd (process_log_data (\<lambda>s d. (Inr (), s)) (stock_session sample_events) ''in'' ''out''))
        (os_path_join ''out'' [''users'']) =
        Some \<lparr>partition_by = [], mode = Overwrite, content = users\<rparr> \<and>
      columns users = [''user_id'', ''first_name'', ''last_name'', ''gender'', ''level''] \<and>
      (\<forall>v. length (filter (\<lambda>\<rho>. cell (columns users) \<rho> ''user_id'' = v) (rows users)) =
           (if v \<in> (\<lambda>r. cell (columns sample_events) r ''userId'') `
                   {r \<in> set (rows sample_events).
                      cell (columns sample_events) r ''page'' = Str ''NextSong''}
            then 1 else 0)) \<and>
      (\<forall>\<rho>\<in>set (rows users). \<exists>r\<in>set (rows sample_events).
           cell (columns sample_events) r ''page'' = Str ''NextSong'' \<and>
           cell (columns users) \<rho> ''user_id'' = cell (columns sample_events) r ''userId'' \<and>
           cell (columns users) \<rho> ''first_name'' = cell (columns sample_events) r ''firstName'' \<and>
           cell (columns users) \<rho> ''last_name'' = cell (columns sample_events) r ''lastName'' \<and>
           cell (columns users) \<rho> ''gender'' = cell (columns sample_events) r ''gender'' \<and>
           cell (columns users) \<rho> ''level'' = cell (columns sample_events) r ''level'')) \<and>
   written (snd (process_log_data (\<lambda>s d. (Inr (), s)) (stock_session sample_events) ''in'' ''out''))
        ''out/users'' =
     Some \<lparr>partition_by = [], mode = Overwrite,
           content = \<lparr>columns = [''user_id'', ''first_name'', ''last_name'', ''gender'', ''level''],
                      rows = [[Str ''1'', Str ''Ann'', Str ''Lee'', Str ''F'', Str ''free'']]\<rparr>\<rparr>"
proof -
  have p: "os_path_join ''out'' [''users''] = ''out/users''"
    by (simp add: os_path_join_def join_step_def)
  have conc: "written (snd (process_log_data (\<lambda>s d. (Inr (), s)) (stock_session sample_events) ''in'' ''out''))
        ''out/users'' =
     Some \<lparr>partition_by = [], mode = Overwrite,
           content = \<lparr>columns = [''user_id'', ''first_name'', ''last_name'', ''gender'', ''level''],
                      rows = [[Str ''1'', Str ''Ann'', Str ''Lee'', Str ''F'', Str ''free'']]\<rparr>\<rparr>"
    using process_log_data_result [OF read_sample_events sample_filter sample_users_table,
        of "\<lambda>s d. (Inr (), s)" "''out''"]
    by (simp add: write_parquet_def p)
  show ?thesis
    using users_one_row_per_NextSong_user
        [OF read_sample_events sample_events_columns, of "\<lambda>s d. (Inr (), s)" "''out''"]
      read_sample_events sample_events_columns conc
    by blast
qed

text \<open>
  Claim C2 fails on the code. Whenever the log read returns a table with the columns used,
  the run ends at line 92 with \<open>NameError\<close> for \<open>date_convert\<close>, after the users table is
  written and before any \<open>start_time\<close> column is derived.
\<close>

theorem date_convert_is_unbound:
  assumes "read_json spark (log_data_path input_data) = Inr df"
    and "has_columns df [''page'', ''userId'', ''firstName'', ''lastName'', ''gender'', ''level'']"
  shows "fst (process_log_data log_data_rest spark input_data output_data) =
           Inl (NameError ''date_convert'')"
proof -
  let ?df = "\<lparr>columns = columns df,
          rows = filter (\<lambda>r. cell (columns df) r ''page'' = Str ''NextSong'') (rows df)\<rparr>"
  have "''page'' \<in> set (columns df)"
    using assms(2) by (simp add: has_columns_def)
  then have flt: "filter_NextSong df = Inr ?df"
    by (rule filter_NextSong_Inr)
  have "has_columns ?df [''userId'', ''firstName'', ''lastName'', ''gender'', ''level'']"
    using assms(2) by (simp add: has_columns_def)
  then obtain users where "users_table ?df = Inr users"
    using users_table_Inr [of ?df] by blast
  then show ?thesis
    using process_log_data_result [OF assms(1) flt] by simp
qed

theorem date_convert_is_unbound_witness:
  "read_json (stock_session sample_events) (log_data_path ''in'') = Inr sample_events \<and>
   has_columns sample_events
     [''page'', ''userId'', ''firstName'', ''lastName'', ''gender'', ''level''] \<and>
   fst (process_log_data (\<lambda>s d. (Inr (), s)) (stock_session sample_events) ''in'' ''out'') =
     Inl (NameError ''date_convert'')"
  using date_convert_is_unbound [OF read_sample_events sample_events_columns]
    read_sample_events sample_events_columns
  by blast

text \<open>
  Claim C3 fails on the code. Whatever the session, the paths and the statements after line
  92 are, \<open>process_log_data\<close> does not return normally and leaves the directory \<open>times\<close>
  as it found it: the time table is never built or written. The name \<open>dayofweek\<close>, which
  line 103 uses for the last column of the table, is not bound by the module either.
\<close>

theorem time_table_never_written:
  "fst (process_log_data log_data_rest spark input_data output_data) \<noteq> Inr () \<and>
   written (snd (process_log_data log_data_rest spark input_data output_data))
     (os_path_join output_data [''times'']) =
   written spark (os_path_join output_data [''times'']) \<and>
   load_name ''dayofweek'' = Inl (NameError ''dayofweek'')"
  using process_log_data_raises [of log_data_rest spark input_data output_data]
    process_log_data_writes_users_only [OF out_users_times] load_name_dayofweek
  by auto

text \<open>
  Claim C9 fails on the code. On a log whose only event is on the page \<open>Home\<close>, the run
  writes a users table without rows and then raises \<open>NameError\<close>; no time table and no
  songplays table is written, empty or not.
\<close>

theorem no_NextSong_run:
  "fst (process_log_data log_data_rest (stock_session home_events) ''in'' ''out'') =
     Inl (NameError ''date_convert'') \<and>
   written (snd (process_log_data log_data_rest (stock_session home_events) ''in'' ''out''))
     ''out/users'' =
     Some \<lparr>partition_by = [], mode = Overwrite,
           content = \<lparr>columns = [''user_id'', ''first_name'', ''last_name'', ''gender'', ''level''],
                      rows = []\<rparr>\<rparr> \<and>
   written (snd (process_log_data log_data_rest (stock_session home_events) ''in'' ''out''))
     ''out/times'' = None \<and>
   written (snd (process_log_data log_data_rest (stock_session home_events) ''in'' ''out''))
     ''out/songplays'' = None"
proof -
  have p: "os_path_join ''out'' [''users''] = ''out/users''"
    by (simp add: os_path_join_def join_step_def)
  show ?thesis
    using process_log_data_result [OF read_home_events home_filter home_users_table,
        of log_data_rest "''out''"]
    by (simp add: write_parquet_def p stock_session_def)
qed

text \<open>
  Claim C1 fails on the code. Whatever the session, the paths and the statements after line
  92 are, \<open>process_log_data\<close> does not return normally and leaves the directory
  \<open>songplays\<close> as it found it: the query is never run and no row of its result is ever
  written.
\<close>

theorem songplays_never_written:
  "fst (process_log_data log_data_rest spark input_data output_data) \<noteq> Inr () \<and>
   written (snd (process_log_data log_data_rest spark input_data output_data))
     (os_path_join output_data [''songplays'']) =
   written spark (os_path_join output_data [''songplays''])"
  using process_log_data_raises [of log_data_rest spark input_data output_data]
    process_log_data_writes_users_only [OF out_users_songplays]
  by auto

text \<open>
  Claim C5 fails on the code. The event stage reads the log pattern and nothing else: two
  sessions that return the same for the JSON read of the log pattern, and have the same
  directories written, give the same result and the same directories, whatever else their
  stores hold and whatever the statements after line 92 are. The catalog is never read a
  second time.
\<close>

theorem event_stage_reads_log_only:
  assumes "storage spark' Json (log_data_path input_data) =
           storage spark Json (log_data_path input_data)"
    and "written spark' = written spark"
  shows "fst (process_log_data log_data_rest spark' input_data output_data) =
           fst (process_log_data log_data_rest spark input_data output_data) \<and>
         written (snd (process_log_data log_data_rest spark' input_data output_data)) =
           written (snd (process_log_data log_data_rest spark input_data output_data))"
  using assms
  by (simp add: process_log_data_def read_json_def load_name_date_convert write_parquet_def
      Let_def split: sum.splits)

theorem event_stage_reads_log_only_witness:
  "storage log_only_session Json (log_data_path ''in'') =
     storage (stock_session sample_events) Json (log_data_path ''in'') \<and>
   written log_only_session = written (stock_session sample_events) \<and>
   fst (process_log_data (\<lambda>s d. (Inr (), s)) log_only_session ''in'' ''out'') =
     fst (process_log_data (\<lambda>s d. (Inr (), s)) (stock_session sample_events) ''in'' ''out'') \<and>
   written (snd (process_log_data (\<lambda>s d. (Inr (), s)) log_only_session ''in'' ''out'')) =
     written (snd (process_log_data (\<lambda>s d. (Inr (), s)) (stock_session sample_events)
                     ''in'' ''out''))"
proof -
  have 1: "storage log_only_session Json (log_data_path ''in'') =
     storage (stock_session sample_events) Json (log_data_path ''in'')"
    by (simp add: log_only_session_def stock_session_def json_lake_def log_data_path_in)
  have 2: "written log_only_session = written (stock_session sample_events)"
    by (simp add: log_only_session_def stock_session_def)
  show ?thesis
    using event_stage_reads_log_only [OF 1 2, of "\<lambda>s d. (Inr (), s)" "''out''"] 1 2
    by (intro conjI) simp_all
qed



end
